theory Spec2Isabelle
  imports Complex_Main
begin

section \<open>Lunar lander: flight dynamics and terrain generation\<close>

text \<open>
  A shallow embedding of \<^verbatim>\<open>lunar_lander.py\<close>: the class \<^verbatim>\<open>Lander\<close> (the per-tick
  integrator \<^verbatim>\<open>update_telemetry\<close> and the command methods) and the class
  \<^verbatim>\<open>Terrain\<close> (the one-shot random profile generator).

  Numbers. Python's \<^verbatim>\<open>float\<close> values are modelled by \<^typ>\<open>real\<close>: arithmetic is
  exact, so the theorems below speak about the control flow and the algebra of the
  code, not about rounding error of IEEE doubles. Python's unbounded \<^verbatim>\<open>int\<close> is
  \<^typ>\<open>int\<close>. Rendering (the pygame surfaces) carries no state that the
  dynamics read, and is left out.
\<close>

subsection \<open>Module constants\<close>

definition GRAVITY :: real where
  "GRAVITY = 0.05"

definition FUEL :: real where
  "FUEL = 100"

text \<open>\<^verbatim>\<open>sys.maxsize\<close> on a 64-bit build.\<close>

definition maxsize :: int where
  "maxsize = 9223372036854775807"

datatype error = KeyError | ValueError | IndexError

subsection \<open>The vehicle\<close>

text \<open>
  The attributes of \<^verbatim>\<open>Lander\<close>, in the order of \<^verbatim>\<open>__init__\<close>. The attribute
  \<^verbatim>\<open>speed\<close> does not exist before the first \<^verbatim>\<open>update_telemetry\<close>, hence the
  option.
\<close>

record lander =
  shipx :: real
  shipy :: real
  xspeed :: real
  yspeed :: real
  thrust :: real
  thrust_level :: int
  degree :: real
  degree_change :: real
  fuel :: real
  thrust_fuel_burn :: real
  spin_fuel_burn :: real
  xdim :: real
  ydim :: real
  pause :: bool
  speed :: "real option"

definition Lander_init :: "real \<Rightarrow> real \<Rightarrow> lander" where
  "Lander_init xd yd =
     \<lparr> shipx = 250, shipy = 150, xspeed = 0, yspeed = 0, thrust = 0, thrust_level = 0,
       degree = 0, degree_change = 0, fuel = FUEL, thrust_fuel_burn = 0,
       spin_fuel_burn = 0, xdim = xd, ydim = yd, pause = False, speed = None \<rparr>"

text \<open>The class attribute \<^verbatim>\<open>THRUST_MAP\<close>, a dictionary with the keys 0..4.\<close>

definition THRUST_MAP :: "int \<rightharpoonup> real" where
  "THRUST_MAP =
     [0 \<mapsto> 0, 1 \<mapsto> GRAVITY * 0.9, 2 \<mapsto> GRAVITY * 2.0, 3 \<mapsto> GRAVITY * 5.0,
      4 \<mapsto> GRAVITY * 10.0]"

text \<open>
  \<^verbatim>\<open>float("{0:.3f}".format(v))\<close>: the value rounded to three decimals, ties to the
  even neighbour.
\<close>

definition fmt3 :: "real \<Rightarrow> real" where
  "fmt3 v =
     (let n = \<lfloor>v * 1000\<rfloor>; f = v * 1000 - of_int n
      in (if f < 1 / 2 then of_int n
          else if 1 / 2 < f then of_int (n + 1)
          else if even n then of_int n else of_int (n + 1)) / 1000)"

text \<open>\<^verbatim>\<open>math.radians\<close>.\<close>

definition radians_of :: "real \<Rightarrow> real" where
  "radians_of d = d * pi / 180"

text \<open>
  Lines 220-224: the heading takes the angular rate, then one turn is taken off above
  360 and one turn is added below 0. The sums are exact here; on doubles they round
  (a sum just below 0 plus 360 is exactly 360.0), so the model and the code agree on
  the value where the operands and the sums are representable, as they are for the
  integer headings 0, 5, ..., 360 used below.
\<close>

definition wrap_degree :: "real \<Rightarrow> real" where
  "wrap_degree d0 =
     (let d1 = (if d0 > 360 then d0 - 360 else d0)
      in if d1 < 0 then d1 + 360 else d1)"

text \<open>Lines 228-231: the thrust direction, a quarter turn from the heading.\<close>

definition degree_adjust :: "real \<Rightarrow> real" where
  "degree_adjust d = (let a = d + 90 in if a \<ge> 360 then a - 360 else a)"

text \<open>
  Lines 244-259: the four edge tests, in the source's order, each on the velocity left
  by the tests before it. The triple is (xspeed, yspeed, degree_change).
\<close>

definition bounce_bottom :: "real \<Rightarrow> real \<Rightarrow> real \<times> real \<times> real \<Rightarrow> real \<times> real \<times> real" where
  "bounce_bottom y yd v =
     (case v of (vx, vy, dc) \<Rightarrow>
        if y > yd \<and> vy > 0 then (vx * 0.7, (vy * 0.7) * (- 1), dc * 0.5) else (vx, vy, dc))"

definition bounce_top :: "real \<Rightarrow> real \<times> real \<times> real \<Rightarrow> real \<times> real \<times> real" where
  "bounce_top y v =
     (case v of (vx, vy, dc) \<Rightarrow>
        if y < 0 \<and> vy < 0 then (vx * 0.7, (vy * 0.7) * (- 1), dc * 0.5) else (vx, vy, dc))"

definition bounce_right :: "real \<Rightarrow> real \<Rightarrow> real \<times> real \<times> real \<Rightarrow> real \<times> real \<times> real" where
  "bounce_right x xd v =
     (case v of (vx, vy, dc) \<Rightarrow>
        if x > xd \<and> vx > 0 then ((vx * 0.7) * (- 1), vy * 0.7, dc * 0.5) else (vx, vy, dc))"

definition bounce_left :: "real \<Rightarrow> real \<times> real \<times> real \<Rightarrow> real \<times> real \<times> real" where
  "bounce_left x v =
     (case v of (vx, vy, dc) \<Rightarrow>
        if x < 0 \<and> vx < 0 then ((vx * 0.7) * (- 1), vy * 0.7, dc * 0.5) else (vx, vy, dc))"

definition bounce :: "lander \<Rightarrow> real \<times> real \<times> real \<Rightarrow> real \<times> real \<times> real" where
  "bounce s v =
     bounce_left (shipx s) (bounce_right (shipx s) (xdim s)
       (bounce_top (shipy s) (bounce_bottom (shipy s) (ydim s) v)))"

text \<open>
  Lines 228-241: the velocity once thrust \<open>t\<close> along heading \<open>d\<close> and gravity are
  added, before the edge tests.
\<close>

definition thrust_velocity :: "lander \<Rightarrow> real \<Rightarrow> real \<Rightarrow> real \<times> real" where
  "thrust_velocity s t d =
     (let radians = fmt3 (radians_of (degree_adjust d));
          x_thrust_multiplier = fmt3 (cos radians);
          y_thrust_multiplier = fmt3 (sin (- radians))
      in (xspeed s + t * x_thrust_multiplier, yspeed s + t * y_thrust_multiplier + GRAVITY))"

text \<open>
  \<^verbatim>\<open>update_telemetry\<close>. The dictionary lookup \<^verbatim>\<open>THRUST_MAP[self.thrust_level]\<close>
  raises \<^verbatim>\<open>KeyError\<close> outside 0..4, before anything is assigned. The position moves
  by the velocity that the edge tests leave.
\<close>

definition update_telemetry :: "lander \<Rightarrow> error + lander" where
  "update_telemetry s =
     (case THRUST_MAP (thrust_level s) of
        None \<Rightarrow> Inl KeyError
      | Some t0 \<Rightarrow>
          (let t = (if fuel s \<le> 0 then 0 else t0);
               d = wrap_degree (degree s + degree_change s);
               f0 = fuel s - thrust_fuel_burn s - spin_fuel_burn s
           in (case thrust_velocity s t d of
                 (vx0, vy0) \<Rightarrow>
                   (case bounce s (vx0, vy0, degree_change s) of
                      (vx, vy, dc) \<Rightarrow>
                        Inr (s\<lparr> thrust := t, degree := d, xspeed := vx, yspeed := vy,
                                degree_change := dc, speed := Some (sqrt (vx\<^sup>2 + vy\<^sup>2)),
                                shipx := shipx s + vx, shipy := shipy s + vy,
                                fuel := (if f0 < 0 then 0 else f0) \<rparr>)))))"

subsection \<open>The command methods\<close>

definition thrust_up :: "lander \<Rightarrow> lander" where
  "thrust_up s =
     (let s1 = s\<lparr> thrust_fuel_burn := thrust_fuel_burn s + 0.05,
                   thrust_level := thrust_level s + 1 \<rparr>
      in if thrust_level s1 > 4 then s1\<lparr> thrust_level := 0, thrust_fuel_burn := 0 \<rparr> else s1)"

definition thrust_down :: "lander \<Rightarrow> lander" where
  "thrust_down s =
     (let s1 = s\<lparr> thrust_level := thrust_level s - 1,
                   thrust_fuel_burn := thrust_fuel_burn s - 0.05 \<rparr>
      in if thrust_level s1 < 0 then s1\<lparr> thrust_level := 0, thrust_fuel_burn := 0 \<rparr> else s1)"

definition spin_left :: "lander \<Rightarrow> lander" where
  "spin_left s =
     (if fuel s > 0 then s\<lparr> degree_change := 5, spin_fuel_burn := 0.001 \<rparr> else s)"

definition spin_right :: "lander \<Rightarrow> lander" where
  "spin_right s =
     (if fuel s > 0 then s\<lparr> degree_change := - 5, spin_fuel_burn := 0.001 \<rparr> else s)"

definition spin_stop :: "lander \<Rightarrow> lander" where
  "spin_stop s =
     (if fuel s > 0 then s\<lparr> degree_change := 0, spin_fuel_burn := 0 \<rparr> else s)"

text \<open>
  What the main loop does with a vehicle: any sequence of the five commands and of
  ticks. A run stops at the first error.
\<close>

datatype command = ThrustUp | ThrustDown | SpinLeft | SpinRight | SpinStop | Advance

fun apply_command :: "lander \<Rightarrow> command \<Rightarrow> error + lander" where
  "apply_command s ThrustUp = Inr (thrust_up s)"
| "apply_command s ThrustDown = Inr (thrust_down s)"
| "apply_command s SpinLeft = Inr (spin_left s)"
| "apply_command s SpinRight = Inr (spin_right s)"
| "apply_command s SpinStop = Inr (spin_stop s)"
| "apply_command s Advance = update_telemetry s"

fun run :: "lander \<Rightarrow> command list \<Rightarrow> error + lander" where
  "run s [] = Inr s"
| "run s (c # cs) = (case apply_command s c of Inl e \<Rightarrow> Inl e | Inr s' \<Rightarrow> run s' cs)"

text \<open>\<open>n\<close> ticks in a row, no command in between.\<close>

fun ticks :: "nat \<Rightarrow> lander \<Rightarrow> error + lander" where
  "ticks 0 s = Inr s"
| "ticks (Suc n) s = (case update_telemetry s of Inl e \<Rightarrow> Inl e | Inr s' \<Rightarrow> ticks n s')"

subsection \<open>The terrain\<close>

text \<open>
  The attributes of \<^verbatim>\<open>Terrain\<close>. The vehicle's record already has fields
  \<open>xdim\<close> and \<open>ydim\<close>, so the terrain's are \<open>txdim\<close> and \<open>tydim\<close>, and
  \<^verbatim>\<open>type\<close> is \<open>ttype\<close>. The width is an integer (\<^verbatim>\<open>random.randint\<close> takes
  it as a bound, and it becomes the last point's x); a point is a pair (x, y).
\<close>

type_synonym point = "int \<times> real"

record Terrain =
  ttype :: string
  terrain :: "point list option"
  landing_zones :: int
  txdim :: int
  tydim :: real

text \<open>
  \<^verbatim>\<open>Terrain.__init__\<close> stores its arguments and nothing else. It is given the
  result type of the operations that can raise; no statement of it does.
\<close>

definition Terrain_init :: "string \<Rightarrow> int \<Rightarrow> real \<Rightarrow> int \<Rightarrow> error + Terrain" where
  "Terrain_init where' xd yd lz =
     Inr \<lparr> ttype = where', terrain = None, landing_zones = lz, txdim = xd, tydim = yd \<rparr>"

text \<open>
  The random source is a stream of raw draws \<open>rnd 0, rnd 1, \<dots>\<close>, read in the order
  of the calls. \<^verbatim>\<open>random.randint(a, b)\<close> returns some integer of \<open>[a, b]\<close>, every one
  of them for a suitable draw, and raises \<^verbatim>\<open>ValueError\<close> when the range is empty.
\<close>

definition pick :: "int \<Rightarrow> int \<Rightarrow> nat \<Rightarrow> int" where
  "pick a b r = a + int r mod (b - a + 1)"

definition randint :: "int \<Rightarrow> int \<Rightarrow> nat \<Rightarrow> error + int" where
  "randint a b r = (if b < a then Inl ValueError else Inr (pick a b r))"

text \<open>Lines 75-78, the two tests that precede every \<^verbatim>\<open>append\<close> inside the loop.\<close>

definition bias_correct :: "real \<Rightarrow> real \<Rightarrow> real" where
  "bias_correct yd ty =
     (let ty1 = (if ty < yd then ty + 100 else ty)
      in if ty1 > yd then ty1 - 100 else ty1)"

text \<open>
  The \<^verbatim>\<open>while True\<close> loop of \<^verbatim>\<open>_gen_terrain\<close>. The result is the list of the
  points appended from this iteration on (the source only ever appends to
  \<^verbatim>\<open>terrain_points\<close>); \<open>i\<close> is the index of the next draw. The two
  \<^verbatim>\<open>randint\<close> calls of the body have the non-empty ranges 40..100 and -100..100.
  \<^verbatim>\<open>pop(0)\<close> on the empty list raises the \<^verbatim>\<open>IndexError\<close> that the source catches.
\<close>

function gen_loop ::
  "int \<Rightarrow> real \<Rightarrow> (nat \<Rightarrow> nat) \<Rightarrow> nat \<Rightarrow> int list \<Rightarrow> int \<Rightarrow> int \<Rightarrow> real \<Rightarrow> real \<Rightarrow> point list" where
  "gen_loop xd yd rnd i flat_segments next_flat_segment tx ty lasty =
     (let ty1 = bias_correct yd ty;
          tx1 = tx + pick 40 100 (rnd i);
          ty2 = ty1 + real_of_int (pick (- 100) 100 (rnd (i + 1)));
          hit = (next_flat_segment < tx1);
          ty3 = (if hit then lasty else ty2);
          nf = (if hit then (case flat_segments of [] \<Rightarrow> maxsize | f # _ \<Rightarrow> f)
                else next_flat_segment);
          fs = (if hit then tl flat_segments else flat_segments)
      in (tx, ty1) #
         (if tx1 > xd then [(xd, ty3)]
          else gen_loop xd yd rnd (i + 2) fs nf tx1 ty3 ty3))"
  by pat_completeness auto
termination
  by (relation "measure (\<lambda>(xd, yd, rnd, i, fs, nf, tx, ty, lasty). nat (xd + 1 - tx))")
     (auto simp: pick_def Let_def)

declare gen_loop.simps [simp del]

text \<open>
  \<^verbatim>\<open>_gen_terrain\<close>: two thresholds drawn from 10..xdim and sorted, the first popped,
  then the loop from \<open>tx = 0\<close>, \<open>ty = lasty = ydim * 0.85\<close>. The argument
  \<^verbatim>\<open>landing_zones\<close> is stored by the constructor and never read.
\<close>

definition gen_terrain :: "Terrain \<Rightarrow> (nat \<Rightarrow> nat) \<Rightarrow> error + Terrain" where
  "gen_terrain t rnd =
     (case randint 10 (txdim t) (rnd 0) of
        Inl e \<Rightarrow> Inl e
      | Inr a \<Rightarrow>
          (case randint 10 (txdim t) (rnd 1) of
             Inl e \<Rightarrow> Inl e
           | Inr b \<Rightarrow>
               (case sort [a, b] of
                  [] \<Rightarrow> Inl IndexError
                | f # fs \<Rightarrow>
                    Inr (t\<lparr> terrain :=
                      Some (gen_loop (txdim t) (tydim t) rnd 2 fs f 0
                              (tydim t * 0.85) (tydim t * 0.85)) \<rparr>))))"

text \<open>\<^verbatim>\<open>get_terrain\<close>: the cached profile, generated at the first call.\<close>

definition get_terrain :: "Terrain \<Rightarrow> (nat \<Rightarrow> nat) \<Rightarrow> error + (point list \<times> Terrain)" where
  "get_terrain t rnd =
     (case terrain t of
        Some ps \<Rightarrow> Inr (ps, t)
      | None \<Rightarrow>
          (case gen_terrain t rnd of
             Inl e \<Rightarrow> Inl e
           | Inr t' \<Rightarrow> (case terrain t' of None \<Rightarrow> Inr ([], t') | Some ps \<Rightarrow> Inr (ps, t'))))"

text \<open>
  The spec's measure of a profile: the number of maximal runs of two or more consecutive
  points with the same y. \<open>count_runs inside ys\<close> walks the y values; \<open>inside\<close> says
  that the current value already belongs to a counted run.
\<close>

fun count_runs :: "bool \<Rightarrow> real list \<Rightarrow> nat" where
  "count_runs inside (a # b # ys) =
     (if a = b then (if inside then 0 else 1) + count_runs True (b # ys)
      else count_runs False (b # ys))"
| "count_runs inside ys = 0"

definition level_runs :: "point list \<Rightarrow> nat" where
  "level_runs ps = count_runs False (map snd ps)"

subsection \<open>Predicates used by the statements\<close>

text \<open>
  An edge is crossed with the velocity still pointing outwards: the bottom or the top
  edge for the vertical component, the right or the left edge for the horizontal one.
\<close>

definition crossed_y :: "lander \<Rightarrow> real \<Rightarrow> bool" where
  "crossed_y s vy = (shipy s > ydim s \<and> vy > 0 \<or> shipy s < 0 \<and> vy < 0)"

definition crossed_x :: "lander \<Rightarrow> real \<Rightarrow> bool" where
  "crossed_x s vx = (shipx s > xdim s \<and> vx > 0 \<or> shipx s < 0 \<and> vx < 0)"

text \<open>The invariant of the command loop: a thrust level of the table, and fuel left or none.\<close>

definition safe :: "lander \<Rightarrow> bool" where
  "safe s = (0 \<le> thrust_level s \<and> thrust_level s \<le> 4 \<and> 0 \<le> fuel s)"

text \<open>A vehicle one unit below the bottom edge of a 1024 x 768 world, falling at 5 and turning.\<close>

definition at_bottom :: lander where
  "at_bottom = (Lander_init 1024 768)\<lparr> shipy := 769, yspeed := 5, degree_change := 5 \<rparr>"

text \<open>
  The terrain object that \<^verbatim>\<open>main\<close> builds, \<^verbatim>\<open>Terrain("moon", xdim, ydim)\<close>, with the
  default of two landing zones.
\<close>

definition moon :: "int \<Rightarrow> real \<Rightarrow> Terrain" where
  "moon xd yd = \<lparr> ttype = ''moon'', terrain = None, landing_zones = 2, txdim = xd, tydim = yd \<rparr>"

text \<open>A random source given by its first draws; the draws after them are 0.\<close>

definition draws :: "nat list \<Rightarrow> nat \<Rightarrow> nat" where
  "draws xs i = (if i < length xs then xs ! i else 0)"

text \<open>
  Two runs of the generator in a 1024 x 768 world, every step 90 wide (raw draw 50), the
  heights moving by -30, +20, -45, +10, +40, -65, +75, -85, +50, +40, -98. In
  \<open>late_draws\<close> the thresholds are 1000 and 1010, beyond the last inner point at
  x = 990; in \<open>close_draws\<close> they are 500 and 510, both inside the step from 450 to 540.
\<close>

definition late_draws :: "nat \<Rightarrow> nat" where
  "late_draws =
     draws [990, 1000, 50, 70, 50, 120, 50, 55, 50, 110, 50, 140, 50, 35, 50, 175,
            50, 15, 50, 150, 50, 140, 50, 2, 50, 100]"

definition close_draws :: "nat \<Rightarrow> nat" where
  "close_draws =
     draws [490, 500, 50, 70, 50, 120, 50, 55, 50, 110, 50, 140, 50, 35, 50, 175,
            50, 15, 50, 150, 50, 140, 50, 2, 50, 130]"

section \<open>Flight dynamics\<close>

subsection \<open>What one tick does\<close>

lemma THRUST_MAP_domain: "(THRUST_MAP k = None) = (k < 0 \<or> 4 < k)"
  by (auto simp: THRUST_MAP_def)

lemma THRUST_MAP_Some:
  "0 \<le> k \<Longrightarrow> k \<le> 4 \<Longrightarrow> \<exists>t. THRUST_MAP k = Some t"
  using THRUST_MAP_domain [of k] by (cases "THRUST_MAP k") auto

lemma update_telemetry_returns:
  assumes "0 \<le> thrust_level s" "thrust_level s \<le> 4"
  shows "\<exists>s'. update_telemetry s = Inr s'"
proof -
  from assms obtain t where "THRUST_MAP (thrust_level s) = Some t"
    using THRUST_MAP_Some by blast
  then show ?thesis
    by (simp add: update_telemetry_def Let_def split: prod.split)
qed

lemma update_telemetry_KeyError:
  "(update_telemetry s = Inl e) = (e = KeyError \<and> (thrust_level s < 0 \<or> 4 < thrust_level s))"
  using THRUST_MAP_domain [of "thrust_level s"]
  by (auto simp: update_telemetry_def Let_def split: option.splits prod.splits)

lemma update_telemetry_degree:
  "update_telemetry s = Inr s' \<Longrightarrow> degree s' = wrap_degree (degree s + degree_change s)"
  by (auto simp: update_telemetry_def Let_def split: option.splits prod.splits)

lemma update_telemetry_frame:
  "update_telemetry s = Inr s' \<Longrightarrow>
     thrust_level s' = thrust_level s \<and> thrust_fuel_burn s' = thrust_fuel_burn s \<and>
     spin_fuel_burn s' = spin_fuel_burn s \<and> xdim s' = xdim s \<and> ydim s' = ydim s \<and>
     pause s' = pause s"
  by (auto simp: update_telemetry_def Let_def split: option.splits prod.splits)

lemma update_telemetry_fuel:
  "update_telemetry s = Inr s' \<Longrightarrow> 0 \<le> fuel s'"
  by (auto simp: update_telemetry_def Let_def split: option.splits prod.splits)

lemma update_telemetry_bounce:
  "update_telemetry s = Inr s' \<Longrightarrow>
     (xspeed s', yspeed s', degree_change s') =
       bounce s (fst (thrust_velocity s (thrust s') (degree s')),
                 snd (thrust_velocity s (thrust s') (degree s')), degree_change s)"
  by (auto simp: update_telemetry_def Let_def split: option.splits prod.splits)

lemma update_telemetry_thrust_zero:
  "update_telemetry s = Inr s' \<Longrightarrow> thrust_level s = 0 \<or> fuel s \<le> 0 \<Longrightarrow> thrust s' = 0"
  by (auto simp: update_telemetry_def THRUST_MAP_def Let_def
      split: option.splits prod.splits if_splits)

lemma thrust_velocity_zero: "thrust_velocity s 0 d = (xspeed s, yspeed s + GRAVITY)"
  by (simp add: thrust_velocity_def Let_def)

subsection \<open>Heading\<close>

text \<open>
  A tick of a vehicle at thrust level 0 that moves straight down inside the world: no
  edge test fires, so the angular rate stays and the heading takes it.
\<close>

lemma coast_step:
  assumes "thrust_level s = 0" "xspeed s = 0" "0 \<le> shipy s" "shipy s \<le> ydim s"
    "0 \<le> yspeed s"
  shows "\<exists>s'. update_telemetry s = Inr s' \<and> thrust_level s' = 0 \<and> xspeed s' = 0 \<and>
           yspeed s' = yspeed s + GRAVITY \<and> shipy s' = shipy s + (yspeed s + GRAVITY) \<and>
           ydim s' = ydim s \<and> degree_change s' = degree_change s \<and>
           degree s' = wrap_degree (degree s + degree_change s)"
  using assms
  by (simp add: update_telemetry_def THRUST_MAP_def Let_def thrust_velocity_def
      bounce_def bounce_bottom_def bounce_top_def bounce_left_def bounce_right_def GRAVITY_def)

text \<open>Below a full turn the test of line 221 does not fire, and the heading is the sum.\<close>

lemma wrap_degree_up_to_360: "0 \<le> d \<Longrightarrow> d \<le> 360 \<Longrightarrow> wrap_degree d = d"
  by (simp add: wrap_degree_def Let_def)

lemma left_turn_run:
  assumes "thrust_level s = 0" "xspeed s = 0" "0 \<le> shipy s" "0 \<le> yspeed s"
    "degree_change s = 5" "0 \<le> degree s" "degree s + 5 * real n \<le> 360"
    "shipy s + real n * yspeed s + GRAVITY * real (n * (n + 1)) / 2 \<le> ydim s"
  shows "\<exists>s'. run s (replicate n Advance) = Inr s' \<and> degree s' = degree s + 5 * real n"
  using assms
proof (induction n arbitrary: s)
  case 0
  then show ?case by simp
next
  case (Suc n)
  have g: "0 \<le> GRAVITY" by (simp add: GRAVITY_def)
  have le: "shipy s \<le> ydim s"
  proof -
    have "0 \<le> real (Suc n) * yspeed s + GRAVITY * real (Suc n * (Suc n + 1)) / 2"
      using Suc.prems(4) g
      by (intro add_nonneg_nonneg mult_nonneg_nonneg divide_nonneg_nonneg) simp_all
    with Suc.prems(8) show ?thesis by linarith
  qed
  from coast_step [OF Suc.prems(1,2,3) le Suc.prems(4)] obtain s1 where
    s1: "update_telemetry s = Inr s1" "thrust_level s1 = 0" "xspeed s1 = 0"
        "yspeed s1 = yspeed s + GRAVITY" "shipy s1 = shipy s + (yspeed s + GRAVITY)"
        "ydim s1 = ydim s" "degree_change s1 = degree_change s"
        "degree s1 = wrap_degree (degree s + degree_change s)"
    by blast
  have d1: "degree s1 = degree s + 5"
    using s1(8) Suc.prems(5,6,7) by (simp add: wrap_degree_up_to_360)
  have bound: "shipy s1 + real n * yspeed s1 + GRAVITY * real (n * (n + 1)) / 2 \<le> ydim s1"
    using Suc.prems(8) s1(4,5,6) by (simp add: field_simps)
  have "\<exists>s'. run s1 (replicate n Advance) = Inr s' \<and> degree s' = degree s1 + 5 * real n"
    using s1(2,3,4,5,7) d1 Suc.prems(3,4,5,6,7) g bound by (intro Suc.IH) simp_all
  then show ?case using s1(1) d1 by (auto simp: algebra_simps)
qed

text \<open>
  Claim C2 says that the heading is in \<open>[0, 360)\<close> right after every
  \<^verbatim>\<open>update_telemetry\<close>. From the initial state of a 1024 x 768 world, \<^verbatim>\<open>spin_left\<close>
  followed by 72 ticks returns with the heading at exactly 360: the headings 5, 10, ...,
  355 pass unchanged, and at the sum 355 + 5 the test \<open>> 360\<close> of line 221 does not fire,
  where the test of line 230 on the thrust direction is \<open>\<ge> 360\<close>. All the values on the
  way are integers, exact on doubles as well.
\<close>

theorem heading_360_after_left_turn:
  "case run (Lander_init 1024 768) (SpinLeft # replicate 72 Advance) of
     Inl e \<Rightarrow> False
   | Inr s \<Rightarrow> degree s = 360 \<and> \<not> (0 \<le> degree s \<and> degree s < 360)"
proof -
  let ?s = "(Lander_init 1024 768)\<lparr> degree_change := 5, spin_fuel_burn := 0.001 \<rparr>"
  have sl: "spin_left (Lander_init 1024 768) = ?s"
    by (simp add: spin_left_def Lander_init_def FUEL_def)
  have "\<exists>s'. run ?s (replicate 72 Advance) = Inr s' \<and> degree s' = degree ?s + 5 * real 72"
    by (rule left_turn_run) (simp_all add: Lander_init_def GRAVITY_def)
  then show ?thesis using sl by (auto simp: Lander_init_def)
qed

text \<open>The last of these ticks alone, from heading 355 with rate 5.\<close>

lemma heading_360_kept:
  "case update_telemetry ((Lander_init 1024 768)\<lparr> degree := 355, degree_change := 5 \<rparr>) of
     Inl e \<Rightarrow> False | Inr s' \<Rightarrow> degree s' = 360"
  by (simp add: update_telemetry_def Lander_init_def THRUST_MAP_def Let_def wrap_degree_def
      split: prod.split)

subsection \<open>Edge bounce\<close>

text \<open>
  In a world of non-negative size the four tests in sequence amount to one test per
  axis on the velocity before the bounce: damping by 0.7 keeps the sign that the later
  tests read, and the two edges of one axis exclude each other.
\<close>

lemma bounce_closed_form:
  assumes "0 \<le> xdim s" "0 \<le> ydim s"
  shows "bounce s (vx, vy, dc) =
     (vx * (if crossed_y s vy then 0.7 else 1) * (if crossed_x s vx then - 0.7 else 1),
      vy * (if crossed_y s vy then - 0.7 else 1) * (if crossed_x s vx then 0.7 else 1),
      dc * (if crossed_y s vy then 0.5 else 1) * (if crossed_x s vx then 0.5 else 1))"
  using assms
  by (auto simp: bounce_def bounce_bottom_def bounce_top_def bounce_right_def bounce_left_def
      crossed_x_def crossed_y_def mult_less_0_iff zero_less_mult_iff)

lemma update_at_bottom:
  "update_telemetry at_bottom =
     Inr (at_bottom\<lparr> degree := 5, yspeed := - 3.535, degree_change := 2.5,
            speed := Some 3.535, shipy := 765.465 \<rparr>)"
  by (simp add: update_telemetry_def at_bottom_def Lander_init_def THRUST_MAP_def Let_def
      thrust_velocity_def bounce_def bounce_bottom_def bounce_top_def bounce_left_def
      bounce_right_def wrap_degree_def GRAVITY_def FUEL_def)

text \<open>
  Claim C6. One \<^verbatim>\<open>update_telemetry\<close> in a world of non-negative size: with \<open>(vx, vy)\<close>
  the velocity after thrust and gravity, a crossed bottom or top edge turns \<open>vy\<close> into
  \<open>- 0.7 * vy\<close>, multiplies \<open>vx\<close> by 0.7 and the angular rate by 0.5, a crossed right or
  left edge does the same with the roles of the components exchanged, and both may
  happen in one tick. In particular a vehicle at \<open>y = ydim + 1\<close> with \<open>yspeed = 5\<close>,
  thrust level 0 and \<open>x\<close> inside the world ends with \<open>yspeed = - 0.7 * (5 + GRAVITY) =
  - 3.535\<close>, negative, smaller in magnitude and within 0.05 of -3.5, and with half its
  angular rate.
\<close>

theorem bounce_damping:
  assumes "update_telemetry s = Inr s'" and "0 \<le> xdim s" and "0 \<le> ydim s"
  shows "(case thrust_velocity s (thrust s') (degree s') of (vx, vy) \<Rightarrow>
      xspeed s' = vx * (if crossed_y s vy then 0.7 else 1) * (if crossed_x s vx then - 0.7 else 1) \<and>
      yspeed s' = vy * (if crossed_y s vy then - 0.7 else 1) * (if crossed_x s vx then 0.7 else 1) \<and>
      degree_change s' =
        degree_change s * (if crossed_y s vy then 0.5 else 1) * (if crossed_x s vx then 0.5 else 1)) \<and>
    (shipy s = ydim s + 1 \<and> yspeed s = 5 \<and> thrust_level s = 0 \<and> 0 \<le> shipx s \<and> shipx s \<le> xdim s
       \<longrightarrow> yspeed s' = - 3.535 \<and> yspeed s' < 0 \<and> \<bar>yspeed s'\<bar> < \<bar>yspeed s\<bar> \<and>
           \<bar>yspeed s' - (- 3.5)\<bar> \<le> 0.05 \<and> degree_change s' = degree_change s / 2 \<and>
           xspeed s' = xspeed s * 0.7)"
proof -
  obtain vx vy where v: "thrust_velocity s (thrust s') (degree s') = (vx, vy)"
    by (cases "thrust_velocity s (thrust s') (degree s')")
  have b: "(xspeed s', yspeed s', degree_change s') = bounce s (vx, vy, degree_change s)"
    using update_telemetry_bounce [OF assms(1)] v by simp
  have gen: "xspeed s' = vx * (if crossed_y s vy then 0.7 else 1) * (if crossed_x s vx then - 0.7 else 1) \<and>
      yspeed s' = vy * (if crossed_y s vy then - 0.7 else 1) * (if crossed_x s vx then 0.7 else 1) \<and>
      degree_change s' =
        degree_change s * (if crossed_y s vy then 0.5 else 1) * (if crossed_x s vx then 0.5 else 1)"
    using b unfolding bounce_closed_form [OF assms(2,3)] by simp
  have scen: "yspeed s' = - 3.535 \<and> yspeed s' < 0 \<and> \<bar>yspeed s'\<bar> < \<bar>yspeed s\<bar> \<and>
           \<bar>yspeed s' - (- 3.5)\<bar> \<le> 0.05 \<and> degree_change s' = degree_change s / 2 \<and>
           xspeed s' = xspeed s * 0.7"
    if h: "shipy s = ydim s + 1 \<and> yspeed s = 5 \<and> thrust_level s = 0 \<and> 0 \<le> shipx s \<and>
           shipx s \<le> xdim s"
  proof -
    from h have "thrust s' = 0"
      using update_telemetry_thrust_zero [OF assms(1)] by simp
    with h v have vv: "vx = xspeed s" "vy = 5.05"
      by (simp_all add: thrust_velocity_zero GRAVITY_def)
    have cy: "crossed_y s vy" using h vv by (simp add: crossed_y_def)
    have cx: "\<not> crossed_x s vx" using h by (simp add: crossed_x_def)
    show ?thesis using gen cy cx vv h by simp
  qed
  show ?thesis using gen scen v by simp
qed

theorem bounce_damping_witness:
  "update_telemetry at_bottom =
     Inr (at_bottom\<lparr> degree := 5, yspeed := - 3.535, degree_change := 2.5,
            speed := Some 3.535, shipy := 765.465 \<rparr>) \<and>
   yspeed at_bottom = 5 \<and> degree_change at_bottom = 5 \<and>
   \<bar>- 3.535 - (- 3.5)\<bar> \<le> (0.05 :: real)"
  using bounce_damping [OF update_at_bottom] update_at_bottom
  by (simp add: at_bottom_def Lander_init_def)

subsection \<open>Fuel\<close>

lemma safe_init: "safe (Lander_init xd yd)"
  by (simp add: safe_def Lander_init_def FUEL_def)

lemma safe_thrust_up: "safe s \<Longrightarrow> safe (thrust_up s)"
  by (auto simp: safe_def thrust_up_def Let_def)

lemma safe_thrust_down: "safe s \<Longrightarrow> safe (thrust_down s)"
  by (auto simp: safe_def thrust_down_def Let_def)

lemma safe_spin: "safe s \<Longrightarrow> safe (spin_left s) \<and> safe (spin_right s) \<and> safe (spin_stop s)"
  by (auto simp: safe_def spin_left_def spin_right_def spin_stop_def)

lemma safe_update:
  assumes "safe s"
  shows "\<exists>s'. update_telemetry s = Inr s' \<and> safe s'"
proof -
  from assms obtain s' where s': "update_telemetry s = Inr s'"
    using update_telemetry_returns by (auto simp: safe_def)
  from update_telemetry_frame [OF s'] update_telemetry_fuel [OF s'] assms
  have "safe s'" by (simp add: safe_def)
  with s' show ?thesis by blast
qed

lemma safe_apply_command:
  "safe s \<Longrightarrow> \<exists>s'. apply_command s c = Inr s' \<and> safe s'"
  by (cases c) (simp_all add: safe_thrust_up safe_thrust_down safe_spin safe_update)

lemma safe_run: "safe s \<Longrightarrow> \<exists>s'. run s cs = Inr s' \<and> safe s'"
proof (induction cs arbitrary: s)
  case Nil
  then show ?case by simp
next
  case (Cons c cs)
  from safe_apply_command [OF Cons.prems, of c]
  obtain s1 where s1: "apply_command s c = Inr s1" "safe s1" by blast
  from Cons.IH [OF s1(2)] s1(1) show ?case by simp
qed

text \<open>
  Claim C3. From the initial vehicle state, every finite sequence of \<^verbatim>\<open>thrust_up\<close>,
  \<^verbatim>\<open>thrust_down\<close>, \<^verbatim>\<open>spin_left\<close>, \<^verbatim>\<open>spin_right\<close>, \<^verbatim>\<open>spin_stop\<close> and
  \<^verbatim>\<open>update_telemetry\<close> calls runs without error and ends in a state whose fuel is not
  negative. The sequence is arbitrary, so this holds in every state on the way.
\<close>

theorem fuel_never_negative:
  "\<exists>s. run (Lander_init xd yd) cs = Inr s \<and> 0 \<le> fuel s"
  using safe_run [OF safe_init, of xd yd cs] by (auto simp: safe_def)

text \<open>
  Claim C4. In a state with \<open>fuel = 0\<close> and a thrust level among 0..4, one
  \<^verbatim>\<open>update_telemetry\<close> changes \<open>xspeed\<close> and \<open>yspeed\<close> by the same amounts as it does from
  the same state with thrust level 0; the thrust it applies is 0, and the two resulting
  states differ in the thrust level only.
\<close>

theorem no_thrust_without_fuel:
  assumes "fuel s = 0" and "thrust_level s \<in> {0, 1, 2, 3, 4}"
  shows "\<exists>s' s0. update_telemetry s = Inr s' \<and>
           update_telemetry (s\<lparr> thrust_level := 0 \<rparr>) = Inr s0 \<and>
           xspeed s' - xspeed s = xspeed s0 - xspeed s \<and>
           yspeed s' - yspeed s = yspeed s0 - yspeed s \<and>
           thrust s' = 0 \<and> s' = s0\<lparr> thrust_level := thrust_level s \<rparr>"
proof -
  from assms(2) obtain t0 where t0: "THRUST_MAP (thrust_level s) = Some t0"
    using THRUST_MAP_Some [of "thrust_level s"] by auto
  have z: "THRUST_MAP 0 = Some 0" by (simp add: THRUST_MAP_def)
  show ?thesis
    using assms(1) t0 z
    by (simp add: update_telemetry_def Let_def thrust_velocity_def bounce_def
        split: prod.splits)
qed

theorem no_thrust_without_fuel_witness:
  "\<exists>s' s0. update_telemetry ((Lander_init 1024 768)\<lparr> fuel := 0, thrust_level := 4 \<rparr>) = Inr s' \<and>
     update_telemetry ((Lander_init 1024 768)\<lparr> fuel := 0, thrust_level := 0 \<rparr>) = Inr s0 \<and>
     xspeed s' = xspeed s0 \<and> yspeed s' = yspeed s0 \<and> thrust s' = 0"
  using no_thrust_without_fuel [of "(Lander_init 1024 768)\<lparr> fuel := 0, thrust_level := 4 \<rparr>"]
  by (auto simp: Lander_init_def)

text \<open>
  Claim C10. One \<^verbatim>\<open>update_telemetry\<close> leaves \<open>thrust_level\<close>, \<open>thrust_fuel_burn\<close> and
  \<open>spin_fuel_burn\<close> as they were.
\<close>

theorem update_telemetry_keeps_controls:
  assumes "update_telemetry s = Inr s'"
  shows "thrust_level s' = thrust_level s \<and> thrust_fuel_burn s' = thrust_fuel_burn s \<and>
         spin_fuel_burn s' = spin_fuel_burn s"
  using update_telemetry_frame [OF assms] by simp

theorem update_telemetry_keeps_controls_witness:
  "thrust_level (at_bottom\<lparr> degree := 5, yspeed := - 3.535, degree_change := 2.5,
            speed := Some 3.535, shipy := 765.465 \<rparr>) = thrust_level at_bottom \<and>
   thrust_fuel_burn (at_bottom\<lparr> degree := 5, yspeed := - 3.535, degree_change := 2.5,
            speed := Some 3.535, shipy := 765.465 \<rparr>) = thrust_fuel_burn at_bottom \<and>
   spin_fuel_burn (at_bottom\<lparr> degree := 5, yspeed := - 3.535, degree_change := 2.5,
            speed := Some 3.535, shipy := 765.465 \<rparr>) = spin_fuel_burn at_bottom"
  using update_telemetry_keeps_controls [OF update_at_bottom] .

subsection \<open>Thrust level\<close>

lemma thrust_up_level:
  "thrust_level (thrust_up s) = (if thrust_level s + 1 > 4 then 0 else thrust_level s + 1)"
  by (simp add: thrust_up_def Let_def)

lemma thrust_up_burn:
  "thrust_fuel_burn (thrust_up s) =
     (if thrust_level s + 1 > 4 then 0 else thrust_fuel_burn s + 0.05)"
  by (simp add: thrust_up_def Let_def)

lemma thrust_up_funpow_level:
  "thrust_level s = 0 \<Longrightarrow> thrust_level ((thrust_up ^^ n) s) = int (n mod 5)"
proof (induction n)
  case 0
  then show ?case by simp
next
  case (Suc n)
  have "n mod 5 < 5" by simp
  then consider "n mod 5 = 0" | "n mod 5 = 1" | "n mod 5 = 2" | "n mod 5 = 3" | "n mod 5 = 4"
    by linarith
  then show ?case
    using Suc by cases (simp_all add: thrust_up_level mod_Suc)
qed

text \<open>
  Claim C5. From a thrust level of 0, after \<open>n\<close> calls of \<^verbatim>\<open>thrust_up\<close> the level is
  \<open>n mod 5\<close>: it runs through 0, 1, 2, 3, 4, 0, ..., stays within 0..4, and the call made
  at level 4 sets both the level and \<open>thrust_fuel_burn\<close> to 0.
\<close>

theorem thrust_up_cycles:
  assumes "thrust_level s = 0"
  shows "thrust_level ((thrust_up ^^ n) s) = int (n mod 5) \<and>
         0 \<le> thrust_level ((thrust_up ^^ n) s) \<and> thrust_level ((thrust_up ^^ n) s) \<le> 4 \<and>
         (thrust_level ((thrust_up ^^ n) s) = 4 \<longrightarrow>
            thrust_level ((thrust_up ^^ Suc n) s) = 0 \<and>
            thrust_fuel_burn ((thrust_up ^^ Suc n) s) = 0)"
proof -
  have l: "thrust_level ((thrust_up ^^ n) s) = int (n mod 5)"
    using assms by (rule thrust_up_funpow_level)
  have "n mod 5 < 5" by simp
  then have "int (n mod 5) \<le> 4" by linarith
  with l show ?thesis by (simp add: thrust_up_level thrust_up_burn)
qed

theorem thrust_up_cycles_witness:
  "thrust_level (Lander_init 1024 768) = 0 \<and>
   thrust_level ((thrust_up ^^ 4) (Lander_init 1024 768)) = 4 \<and>
   thrust_level ((thrust_up ^^ Suc 4) (Lander_init 1024 768)) = 0 \<and>
   thrust_fuel_burn ((thrust_up ^^ Suc 4) (Lander_init 1024 768)) = 0"
proof -
  have h: "thrust_level (Lander_init 1024 768) = 0"
    by (simp add: Lander_init_def)
  from thrust_up_cycles [OF h, of 4] h show ?thesis
    by simp
qed

subsection \<open>Free fall\<close>

lemma free_fall_step:
  assumes "thrust_level s = 0" "degree s = 0" "degree_change s = 0" "xspeed s = 0"
    "thrust_fuel_burn s = 0" "spin_fuel_burn s = 0" "0 \<le> fuel s"
    "0 \<le> shipy s" "shipy s \<le> ydim s" "0 \<le> yspeed s"
  shows "update_telemetry s =
     Inr (s\<lparr> thrust := 0, yspeed := yspeed s + GRAVITY, speed := Some (yspeed s + GRAVITY),
            shipy := shipy s + (yspeed s + GRAVITY) \<rparr>)"
  using assms
  by (simp add: update_telemetry_def THRUST_MAP_def Let_def thrust_velocity_def wrap_degree_def
      bounce_def bounce_bottom_def bounce_top_def bounce_left_def bounce_right_def GRAVITY_def)

text \<open>
  As long as the vehicle stays above the bottom edge, \<open>n\<close> ticks at rest add \<open>n\<close> times
  the gravity to \<open>yspeed\<close> and touch neither the fuel nor \<open>xspeed\<close>.
\<close>

lemma free_fall_ticks:
  assumes "thrust_level s = 0" "degree s = 0" "degree_change s = 0" "xspeed s = 0"
    "thrust_fuel_burn s = 0" "spin_fuel_burn s = 0" "0 \<le> fuel s"
    "0 \<le> shipy s" "0 \<le> yspeed s"
    "shipy s + real n * yspeed s + GRAVITY * real (n * (n + 1)) / 2 \<le> ydim s"
  shows "\<exists>s'. ticks n s = Inr s' \<and> fuel s' = fuel s \<and> xspeed s' = 0 \<and>
           yspeed s' = yspeed s + real n * GRAVITY"
  using assms
proof (induction n arbitrary: s)
  case 0
  then show ?case by simp
next
  case (Suc n)
  have g: "0 \<le> GRAVITY" by (simp add: GRAVITY_def)
  have le: "shipy s \<le> ydim s"
  proof -
    have "0 \<le> real (Suc n) * yspeed s + GRAVITY * real (Suc n * (Suc n + 1)) / 2"
      using Suc.prems(9) g
      by (intro add_nonneg_nonneg mult_nonneg_nonneg divide_nonneg_nonneg) simp_all
    with Suc.prems(10) show ?thesis by linarith
  qed
  let ?s1 = "s\<lparr> thrust := 0, yspeed := yspeed s + GRAVITY, speed := Some (yspeed s + GRAVITY),
            shipy := shipy s + (yspeed s + GRAVITY) \<rparr>"
  have step: "update_telemetry s = Inr ?s1"
    using Suc.prems(1-8) le Suc.prems(9) by (rule free_fall_step)
  have bound: "shipy ?s1 + real n * yspeed ?s1 + GRAVITY * real (n * (n + 1)) / 2 \<le> ydim ?s1"
    using Suc.prems(10) by (simp add: field_simps)
  have "\<exists>s'. ticks n ?s1 = Inr s' \<and> fuel s' = fuel ?s1 \<and> xspeed s' = 0 \<and>
           yspeed s' = yspeed ?s1 + real n * GRAVITY"
    using Suc.prems(1-9) g bound by (intro Suc.IH) simp_all
  then show ?case using step by (auto simp: algebra_simps)
qed

text \<open>
  Claim C7. From the initial state of a 1024 x 768 world (at rest, thrust level 0, fuel
  100, heading 0), twenty \<^verbatim>\<open>update_telemetry\<close> calls with no command in between return
  with \<open>fuel = 100\<close>, \<open>xspeed = 0\<close> and \<open>yspeed = 20 * 0.05 = 1\<close> (exactly, in real
  arithmetic).
\<close>

theorem twenty_ticks_at_rest:
  "\<exists>s. ticks 20 (Lander_init 1024 768) = Inr s \<and> fuel s = 100 \<and> xspeed s = 0 \<and>
        yspeed s = 20 * 0.05 \<and> yspeed s = 1"
  using free_fall_ticks [of "Lander_init 1024 768" 20]
  by (simp add: Lander_init_def FUEL_def GRAVITY_def)

section \<open>Terrain generation\<close>

subsection \<open>One iteration of the loop, and the first point\<close>

lemma gen_loop_unfold:
  "gen_loop xd yd rnd i fs nf tx ty lasty =
     (tx, bias_correct yd ty) #
     (if tx + pick 40 100 (rnd i) > xd
      then [(xd, if nf < tx + pick 40 100 (rnd i) then lasty
                 else bias_correct yd ty + real_of_int (pick (- 100) 100 (rnd (i + 1))))]
      else gen_loop xd yd rnd (i + 2)
             (if nf < tx + pick 40 100 (rnd i) then tl fs else fs)
             (if nf < tx + pick 40 100 (rnd i) then (case fs of [] \<Rightarrow> maxsize | f # _ \<Rightarrow> f)
              else nf)
             (tx + pick 40 100 (rnd i))
             (if nf < tx + pick 40 100 (rnd i) then lasty
              else bias_correct yd ty + real_of_int (pick (- 100) 100 (rnd (i + 1))))
             (if nf < tx + pick 40 100 (rnd i) then lasty
              else bias_correct yd ty + real_of_int (pick (- 100) 100 (rnd (i + 1)))))"
  by (subst gen_loop.simps) (simp add: Let_def)

lemma gen_loop_hd: "hd (gen_loop xd yd rnd i fs nf tx ty lasty) = (tx, bias_correct yd ty)"
  by (subst gen_loop.simps) (simp add: Let_def)

lemma gen_loop_not_Nil: "gen_loop xd yd rnd i fs nf tx ty lasty \<noteq> []"
  by (subst gen_loop.simps) (simp add: Let_def)

lemma bias_correct_cases:
  "bias_correct yd y = (if y + 100 \<le> yd then y + 100 else if y \<le> yd then y else y - 100)"
  by (simp add: bias_correct_def Let_def)

lemma gen_terrain_ValueError: "txdim t < 10 \<Longrightarrow> gen_terrain t rnd = Inl ValueError"
  by (simp add: gen_terrain_def randint_def)

lemma gen_terrain_Inr:
  assumes "10 \<le> txdim t"
  shows "\<exists>ps. gen_terrain t rnd = Inr (t\<lparr> terrain := Some ps \<rparr>) \<and>
              hd ps = (0, bias_correct (tydim t) (tydim t * 0.85)) \<and> ps \<noteq> []"
  using assms
  by (auto simp add: gen_terrain_def randint_def gen_loop_hd gen_loop_not_Nil)

lemma get_terrain_ValueError:
  "terrain t = None \<Longrightarrow> txdim t < 10 \<Longrightarrow> get_terrain t rnd = Inl ValueError"
  by (simp add: get_terrain_def gen_terrain_ValueError)

lemma get_terrain_fresh:
  assumes "terrain t = None" and "10 \<le> txdim t"
  shows "\<exists>ps. get_terrain t rnd = Inr (ps, t\<lparr> terrain := Some ps \<rparr>) \<and>
              hd ps = (0, bias_correct (tydim t) (tydim t * 0.85)) \<and> ps \<noteq> []"
proof -
  from gen_terrain_Inr [OF assms(2), of rnd] obtain ps where
    ps: "gen_terrain t rnd = Inr (t\<lparr> terrain := Some ps \<rparr>)"
        "hd ps = (0, bias_correct (tydim t) (tydim t * 0.85))" "ps \<noteq> []"
    by blast
  then show ?thesis using assms(1) by (simp add: get_terrain_def)
qed

lemma get_terrain_cached:
  "terrain t = Some ps \<Longrightarrow> get_terrain t rnd = Inr (ps, t)"
  by (simp add: get_terrain_def)

subsection \<open>Where the profile starts\<close>

text \<open>
  Claim C8 says that for every positive width and height the first point of the profile
  is \<open>(0, 0.85 * ydim)\<close>, and that the adjustment by 100 is applied only when y is outside
  \<open>[0, ydim]\<close>. In the 1024 x 768 world the loop starts from \<open>ty = 652.8\<close>, which is
  inside the range; line 75 adds 100 because \<open>ty < ydim\<close>, line 77 does not take it back
  because \<open>752.8 \<le> 768\<close>, and the first point is \<open>(0, 752.8)\<close>, whatever is drawn.
\<close>

theorem first_point_counterexample:
  "case get_terrain (moon 1024 768) late_draws of
     Inl e \<Rightarrow> False
   | Inr (ps, t') \<Rightarrow> hd ps = (0, 752.8) \<and> hd ps \<noteq> (0, 0.85 * 768)"
  using get_terrain_fresh [of "moon 1024 768" late_draws]
  by (auto simp: moon_def bias_correct_def)

text \<open>
  Claim C8, amended: for a fresh terrain of width at least 10 and positive height,
  \<^verbatim>\<open>get_terrain\<close> returns a profile whose first point is \<open>(0, 0.85 * ydim + 100)\<close> when
  \<open>0.85 * ydim + 100 \<le> ydim\<close> and \<open>(0, 0.85 * ydim)\<close> otherwise; before each point of
  the loop is appended, y grows by 100 when \<open>y + 100 \<le> ydim\<close>, stays when
  \<open>ydim - 100 < y \<le> ydim\<close>, and drops by 100 when \<open>y > ydim\<close>. The bound 0 is not
  tested.
\<close>

theorem first_point_after_bias:
  assumes "terrain t = None" and "10 \<le> txdim t" and "0 < tydim t"
  shows "(\<exists>ps t'. get_terrain t rnd = Inr (ps, t') \<and>
            hd ps = (0, if tydim t * 0.85 + 100 \<le> tydim t then tydim t * 0.85 + 100
                        else tydim t * 0.85)) \<and>
         bias_correct (tydim t) y =
           (if y + 100 \<le> tydim t then y + 100 else if y \<le> tydim t then y else y - 100)"
proof -
  from get_terrain_fresh [OF assms(1,2), of rnd] obtain ps where
    ps: "get_terrain t rnd = Inr (ps, t\<lparr> terrain := Some ps \<rparr>)"
        "hd ps = (0, bias_correct (tydim t) (tydim t * 0.85))"
    by blast
  have "bias_correct (tydim t) (tydim t * 0.85) =
          (if tydim t * 0.85 + 100 \<le> tydim t then tydim t * 0.85 + 100 else tydim t * 0.85)"
    using assms(3) by (simp add: bias_correct_cases)
  with ps show ?thesis by (simp add: bias_correct_cases)
qed

theorem first_point_after_bias_witness:
  "(\<exists>ps t'. get_terrain (moon 1024 768) late_draws = Inr (ps, t') \<and> hd ps = (0, 752.8)) \<and>
   bias_correct 768 652.8 = 752.8"
  using first_point_after_bias [of "moon 1024 768" late_draws "652.8"]
  by (simp add: moon_def)

subsection \<open>Construction\<close>

text \<open>
  Claim C9 says that constructing a terrain with a non-positive width or height or a
  negative number of landing zones raises. \<^verbatim>\<open>Terrain("moon", 0, 0, -1)\<close> returns an
  object.
\<close>

theorem Terrain_init_counterexample:
  "case Terrain_init ''moon'' 0 0 (- 1) of
     Inl e \<Rightarrow> False
   | Inr t \<Rightarrow> txdim t = 0 \<and> tydim t = 0 \<and> landing_zones t = - 1 \<and> terrain t = None"
  by (simp add: Terrain_init_def)

text \<open>
  Claim C9, amended: \<^verbatim>\<open>Terrain.__init__\<close> never raises; it stores its four arguments
  as they are and leaves the profile unset. A width below 10 makes the first
  \<^verbatim>\<open>get_terrain\<close> raise \<^verbatim>\<open>ValueError\<close> (the empty range of
  \<^verbatim>\<open>randint(10, xdim)\<close>); with a width of at least 10, \<^verbatim>\<open>get_terrain\<close> returns a
  non-empty profile whatever the height and the number of landing zones are.
\<close>

theorem Terrain_init_stores_unchecked:
  "\<exists>t. Terrain_init w xd yd lz = Inr t \<and>
        ttype t = w \<and> terrain t = None \<and> landing_zones t = lz \<and> txdim t = xd \<and> tydim t = yd \<and>
        (get_terrain t rnd = Inl ValueError) = (xd < 10) \<and>
        (\<exists>ps t'. get_terrain t rnd = Inr (ps, t') \<and> ps \<noteq> []) = (10 \<le> xd)"
proof -
  let ?t = "\<lparr> ttype = w, terrain = None, landing_zones = lz, txdim = xd, tydim = yd \<rparr>"
  have i: "Terrain_init w xd yd lz = Inr ?t" by (simp add: Terrain_init_def)
  have n: "terrain ?t = None" by simp
  show ?thesis
  proof (cases "xd < 10")
    case True
    then have "get_terrain ?t rnd = Inl ValueError"
      using get_terrain_ValueError [OF n, of rnd] by simp
    with True i show ?thesis by simp
  next
    case False
    then have "10 \<le> txdim ?t" by simp
    from get_terrain_fresh [OF n this, of rnd] obtain ps where
      "get_terrain ?t rnd = Inr (ps, ?t\<lparr> terrain := Some ps \<rparr>)" "ps \<noteq> []" by blast
    with False i show ?thesis by auto
  qed
qed

subsection \<open>Level runs\<close>

text \<open>
  Claim C1 says that every generated profile has at least \<^verbatim>\<open>landing_zones\<close> maximal runs
  of two or more consecutive points with equal y, in particular at least two in the
  1024 x 768 world; the docstring of \<^verbatim>\<open>_gen_terrain\<close> promises at least two level
  surfaces. The code does this at the draws \<open>late_draws\<close>: the threshold 1000 is passed
  only by the step that leaves the world, so the point appended after the loop carries
  \<open>lasty = 664.8\<close> without the adjustment of lines 75-78 that the point before it got
  (764.8); the threshold 1010 is never used. The profile has no level run at all.
\<close>

theorem terrain_without_level_run:
  "case get_terrain (moon 1024 768) late_draws of
     Inl e \<Rightarrow> False
   | Inr (ps, t') \<Rightarrow>
       ps = [(0, 752.8), (90, 722.8), (180, 742.8), (270, 697.8), (360, 707.8), (450, 747.8),
             (540, 682.8), (630, 757.8), (720, 672.8), (810, 722.8), (900, 762.8),
             (990, 764.8), (1024, 664.8)] \<and>
       level_runs ps = 0 \<and> int (level_runs ps) < landing_zones t'"
proof -
  have "gen_terrain (moon 1024 768) late_draws =
      Inr ((moon 1024 768)\<lparr> terrain := Some
        [(0, 752.8), (90, 722.8), (180, 742.8), (270, 697.8), (360, 707.8), (450, 747.8),
             (540, 682.8), (630, 757.8), (720, 672.8), (810, 722.8), (900, 762.8),
             (990, 764.8), (1024, 664.8)] \<rparr>)"
    apply (simp add: gen_terrain_def moon_def randint_def pick_def draws_def late_draws_def)
    apply (simp add: gen_loop_unfold pick_def draws_def bias_correct_def maxsize_def)
    done
  then show ?thesis
    by (simp add: get_terrain_def moon_def level_runs_def)
qed

text \<open>
  At the draws \<open>close_draws\<close> both thresholds fall inside one step. They are used by two
  consecutive iterations, which hold the same \<open>lasty\<close>: three points in a row at 747.8,
  one maximal run.
\<close>

lemma terrain_with_merged_run:
  "case get_terrain (moon 1024 768) close_draws of
     Inl e \<Rightarrow> False
   | Inr (ps, t') \<Rightarrow>
       ps = [(0, 752.8), (90, 722.8), (180, 742.8), (270, 697.8), (360, 707.8), (450, 747.8),
             (540, 747.8), (630, 747.8), (720, 762.8), (810, 712.8), (900, 752.8),
             (990, 754.8), (1024, 784.8)] \<and>
       level_runs ps = 1"
proof -
  have "gen_terrain (moon 1024 768) close_draws =
      Inr ((moon 1024 768)\<lparr> terrain := Some
        [(0, 752.8), (90, 722.8), (180, 742.8), (270, 697.8), (360, 707.8), (450, 747.8),
             (540, 747.8), (630, 747.8), (720, 762.8), (810, 712.8), (900, 752.8),
             (990, 754.8), (1024, 784.8)] \<rparr>)"
    apply (simp add: gen_terrain_def moon_def randint_def pick_def draws_def close_draws_def)
    apply (simp add: gen_loop_unfold pick_def draws_def bias_correct_def maxsize_def)
    done
  then show ?thesis
    by (simp add: get_terrain_def moon_def level_runs_def)
qed

text \<open>
  In a world narrower than the smallest step the first step already leaves it: two
  points, the second without the adjustment.
\<close>

lemma narrow_world_terrain:
  "get_terrain (moon 30 768) (draws [5, 7, 20, 130]) =
     Inr ([(0, 752.8), (30, 652.8)], (moon 30 768)\<lparr> terrain := Some [(0, 752.8), (30, 652.8)] \<rparr>)"
  apply (simp add: get_terrain_def gen_terrain_def moon_def randint_def pick_def draws_def)
  apply (simp add: gen_loop_unfold pick_def draws_def bias_correct_def maxsize_def)
  done

end
